theory Spec2Isabelle
  imports Complex_Main
begin

section \<open>The training script LatentLM/debug\_hf.py as a shallow embedding\<close>

text \<open>
  The script is one procedure, \<open>main\<close>, that threads a handful of local variables
  through calls into external collaborators (the autoencoder, the predictor, the noise
  scheduler, the accelerator, the distributed runtime, the file system, the telemetry
  sinks).  The embedding keeps the local variables as records, turns every raised
  exception (and the \<open>exit()\<close> call) into a value of type \<open>error\<close>, and records the calls
  made to the collaborators as a list of \<open>event\<close>s, in program order.

  Floating-point scalars are idealised as \<open>real\<close>; a tensor is its shape together with
  its flattened elements.
\<close>

subsection \<open>Errors, events and the run type\<close>

type_synonym path = string

datatype error =
    NameError string
  | ValueError string
  | TypeError string
  | ZeroDivisionError
  | IndexError
  | KeyError string
  | FileNotFoundError path
  | NotImplementedError
  | SystemExit
  | SinkError string

record tensor =
  shape :: "nat list"
  elems :: "real list"

text \<open>The side record \<open>other_state.pth\<close> of a checkpoint and the EMA state stored in it.\<close>

record ema_state =
  shadow_params :: "real list list"
  optimization_step :: nat
  decay :: real
  min_decay :: real
  use_ema_warmup :: bool
  inv_gamma :: real
  power :: real
  cur_decay_value :: real

record other_state =
  os_scaling_factor :: "real option"
  os_bias_factor :: "real option"
  os_steps :: int
  os_ema :: "ema_state option"

datatype event =
    SetSeed int
  | Print string
  | PrintFactors "real option" "real option"
  | VaeEncode tensor
  | AllReduce real
  | LoggerInfo string
  | RandnLike "nat list"
  | ForwardParallel tensor "nat list"
  | SetTimesteps int
  | ForwardDiffusion tensor "int list" tensor
  | SchedulerStep tensor int tensor
  | PrintLoss real
  | Backward real
  | EmaStep
  | AcceleratorLog "(string \<times> real) list" int
  | WandbLog "(string \<times> real) list" int
  | SaveState path
  | TorchSave path other_state
  | SafeBlobWrite path string
  | LoadStateDict "real list list"
  | EndTraining

text \<open>
  A run of a block of statements: the calls it made, and either the exception that ended
  it or its result.
\<close>

type_synonym 'a run = "event list \<times> (error + 'a)"

definition ret :: "'a \<Rightarrow> 'a run" where
  "ret x = ([], Inr x)"

definition raise :: "error \<Rightarrow> 'a run" where
  "raise e = ([], Inl e)"

definition emit :: "event \<Rightarrow> unit run" where
  "emit ev = ([ev], Inr ())"

definition seq :: "'a run \<Rightarrow> ('a \<Rightarrow> 'b run) \<Rightarrow> 'b run" where
  "seq m f =
     (case m of
        (tr, Inl e) \<Rightarrow> (tr, Inl e)
      | (tr, Inr x) \<Rightarrow> (case f x of (tr', r) \<Rightarrow> (tr @ tr', r)))"

subsection \<open>Tensor statistics (torch semantics, over the reals)\<close>

text \<open>
  \<open>x.flatten().mean()\<close> and \<open>x.flatten().std()\<close>: the mean of all elements, and the standard
  deviation with Bessel's correction (torch's default).  On a tensor with fewer than two
  elements, or with zero deviation, torch produces \<open>nan\<close> or \<open>inf\<close>, which the reals do not
  have; \<open>finite_stats\<close> marks the tensors on which the real-valued model agrees with it.
\<close>

definition tensor_mean :: "tensor \<Rightarrow> real" where
  "tensor_mean x = sum_list (elems x) / real (length (elems x))"

definition tensor_std :: "tensor \<Rightarrow> real" where
  "tensor_std x =
     sqrt (sum_list (map (\<lambda>v. (v - tensor_mean x)\<^sup>2) (elems x)) / real (length (elems x) - 1))"

definition finite_stats :: "tensor \<Rightarrow> bool" where
  "finite_stats x = (2 \<le> length (elems x) \<and> tensor_std x \<noteq> 0)"

definition affine :: "tensor \<Rightarrow> real \<Rightarrow> real \<Rightarrow> tensor" where
  \<comment> \<open>\<open>(clean_images + bias_factor) * scaling_factor\<close>, elementwise\<close>
  "affine x b s = x\<lparr>elems := map (\<lambda>v. (v + b) * s) (elems x)\<rparr>"

definition mse_loss :: "tensor \<Rightarrow> tensor \<Rightarrow> real" where
  \<comment> \<open>\<open>F.mse_loss\<close> with the default mean reduction\<close>
  "mse_loss a b =
     sum_list (map (\<lambda>(u, v). (u - v)\<^sup>2) (zip (elems a) (elems b))) / real (length (elems a))"

subsection \<open>The distributed runtime, seen from one worker\<close>

text \<open>
  \<open>dist.all_reduce(t, op=SUM)\<close> replaces the worker's scalar by the sum of the scalars of
  all workers.  From one worker's side the collaborator is the list of the other workers'
  contributions; \<open>dist.get_world_size()\<close> counts the worker itself and its peers.
\<close>

definition all_reduce_sum :: "real list \<Rightarrow> real \<Rightarrow> real" where
  "all_reduce_sum peers v = v + sum_list peers"

definition get_world_size :: "'a list \<Rightarrow> nat" where
  "get_world_size peers = Suc (length peers)"

subsection \<open>Loop state and the normalisation block (lines 260--268)\<close>

record 'sch train_state =
  global_step :: int
  running_loss :: real
  scaling_factor :: "real option"
  bias_factor :: "real option"
  ema_model :: "ema_state option"
  parameters :: "real list list"
  noise_scheduler :: 'sch

definition local_scale :: "tensor \<Rightarrow> real" where
  "local_scale x = 1 / tensor_std x"

definition local_bias :: "tensor \<Rightarrow> real" where
  "local_bias x = - tensor_mean x"

definition normalize :: "(real \<times> real) list \<Rightarrow> 'sch train_state \<Rightarrow> tensor \<Rightarrow> ('sch train_state \<times> tensor) run" where
  "normalize peers st clean_images =
     (case scaling_factor st of
        None \<Rightarrow>
          (let sf = local_scale clean_images;
               bf = local_bias clean_images;
               sf_sum = all_reduce_sum (map fst peers) sf;
               bf_sum = all_reduce_sum (map snd peers) bf;
               sf' = sf_sum / real (get_world_size peers);
               bf' = bf_sum / real (get_world_size peers);
               st' = st\<lparr>scaling_factor := Some sf', bias_factor := Some bf'\<rparr>
           in seq (emit (AllReduce sf)) (\<lambda>_.
              seq (emit (AllReduce bf)) (\<lambda>_.
              seq (emit (LoggerInfo ''Scaling factor, Bias factor'')) (\<lambda>_.
              ret (st', affine clean_images bf' sf')))))
      | Some sf \<Rightarrow>
          (case bias_factor st of
             None \<Rightarrow> raise (TypeError ''unsupported operand: Tensor + NoneType'')
           | Some bf \<Rightarrow> ret (st, affine clean_images bf sf)))"

text \<open>
  All workers of a run execute the block in lockstep.  Worker \<open>i\<close> of a run whose workers
  hold the batches \<open>bs\<close> receives, through the collective, the local statistics of every
  other worker.
\<close>

definition peers_of :: "tensor list \<Rightarrow> nat \<Rightarrow> (real \<times> real) list" where
  "peers_of bs i = map (\<lambda>b. (local_scale b, local_bias b)) (take i bs @ drop (Suc i) bs)"

subsection \<open>Command-line arguments (\<open>parse_args\<close>, lines 36--100)\<close>

record args =
  seed :: int
  output_dir :: string
  cache_dir :: string
  local_rank :: int
  dataset_name :: "string option"
  dataset_config_name :: "string option"
  train_data_dir :: string
  model :: string
  vae :: "string option"
  image_size :: int
  num_classes :: int
  dropout :: real
  batch_size :: int
  num_epochs :: int
  gradient_accumulation_steps :: int
  dataloader_num_workers :: int
  learning_rate :: real
  lr_warmup_steps :: int
  use_ema :: bool
  ema_inv_gamma :: real
  ema_power :: real
  ema_max_decay :: real
  logger :: "string option"
  logging_dir :: string
  wandb_project :: "string option"
  wandb_entity :: "string option"
  log_every :: int
  mixed_precision :: string
  prediction_type :: string
  ddpm_num_steps :: int
  ddpm_num_inference_steps :: int
  ddpm_beta_schedule :: string
  ddpm_batch_mul :: int
  checkpointing_steps :: int
  checkpoint :: "string option"

definition default_args :: args where
  \<comment> \<open>the defaults of \<open>parse_args\<close>\<close>
  "default_args =
     \<lparr>seed = 0, output_dir = ''results'', cache_dir = ''/mnt/msranlp/yutao/cache'',
      local_rank = - 1, dataset_name = None, dataset_config_name = None,
      train_data_dir = ''/tmp/ILSVRC/Data/CLS-LOC/train'', model = ''DiT-Medium'', vae = None,
      image_size = 256, num_classes = 1000, dropout = 0, batch_size = 32, num_epochs = 100,
      gradient_accumulation_steps = 1, dataloader_num_workers = 2, learning_rate = 1 / 10000,
      lr_warmup_steps = 100, use_ema = False, ema_inv_gamma = 1, ema_power = 3 / 4,
      ema_max_decay = 9999 / 10000, logger = None, logging_dir = ''logs'',
      wandb_project = None, wandb_entity = None, log_every = 100, mixed_precision = ''no'',
      prediction_type = ''epsilon'', ddpm_num_steps = 1000, ddpm_num_inference_steps = 20,
      ddpm_beta_schedule = ''cosine'', ddpm_batch_mul = 4, checkpointing_steps = 5000,
      checkpoint = None\<rparr>"

subsection \<open>Names bound at module level\<close>

text \<open>
  The names the module binds (its imports, lines 1--31, and its top-level assignments and
  definitions), and the builtins the script refers to.  A name that a function reads
  without assigning it is looked up here; when the lookup fails, Python raises
  \<open>NameError\<close>.
\<close>

definition module_globals :: "string list" where
  "module_globals =
     [''argparse'', ''functools'', ''logging'', ''math'', ''os'', ''timedelta'', ''datasets'',
      ''torch'', ''F'', ''dist'', ''Accelerator'', ''InitProcessGroupKwargs'', ''get_logger'',
      ''ProjectConfiguration'', ''set_seed'', ''load_file'', ''load_dataset'', ''transforms'',
      ''InterpolationMode'', ''ImageFolder'', ''diffusers'', ''compute_snr'', ''get_scheduler'',
      ''All_models'', ''DiT'', ''Transformer'', ''EMAModel'', ''center_crop_arr'',
      ''safe_blob_write'', ''DPMSolverMultistepScheduler'', ''wandb'', ''AutoencoderKL'',
      ''logger'', ''parse_args'', ''main'', ''args'']"

definition builtins :: "string list" where
  "builtins =
     [''print'', ''exit'', ''isinstance'', ''int'', ''sum'', ''len'', ''range'', ''enumerate'',
      ''zip'', ''open'', ''ValueError'', ''NotImplementedError'', ''__file__'', ''__name__'']"

definition resolve_global :: "string \<Rightarrow> bool" where
  "resolve_global name = (name \<in> set (module_globals @ builtins))"

subsection \<open>Paths and strings\<close>

definition join :: "path \<Rightarrow> path \<Rightarrow> path" where
  \<comment> \<open>\<open>os.path.join\<close> (POSIX) on two components\<close>
  "join a b =
     (if b \<noteq> [] \<and> hd b = CHR ''/'' then b
      else if a = [] \<or> last a = CHR ''/'' then a @ b
      else a @ ''/'' @ b)"

definition is_space :: "char \<Rightarrow> bool" where
  "is_space ch = (ch \<in> set [CHR '' '', CHR 0x09, CHR 0x0A, CHR 0x0B, CHR 0x0C, CHR 0x0D])"

definition strip :: "string \<Rightarrow> string" where
  "strip s = rev (dropWhile is_space (rev (dropWhile is_space s)))"

fun str_nat :: "nat \<Rightarrow> string" where
  "str_nat n = (if n < 10 then [''0123456789'' ! n] else str_nat (n div 10) @ [''0123456789'' ! (n mod 10)])"

declare str_nat.simps [simp del]

definition str :: "int \<Rightarrow> string" where
  "str i = (if i < 0 then ''-'' @ str_nat (nat (- i)) else str_nat (nat i))"

subsection \<open>The EMA tracker\<close>

text \<open>
  Modelled from the spec: the decay schedule of the class \<open>EMAModel\<close> (module \<open>models\<close>,
  not among the sources).  Spec 4.1: with warmup disabled the decay is \<open>max_decay\<close>, capped
  by the minimum-decay floor; with warmup enabled it is
  \<open>1 - (1 + step/inv_gamma)^(-power)\<close> clamped to \<open>[min_decay, max_decay]\<close>.
\<close>

definition get_decay :: "ema_state \<Rightarrow> nat \<Rightarrow> real" where
  "get_decay e step =
     (if use_ema_warmup e
      then max (min_decay e) (min (decay e) (1 - (1 + real step / inv_gamma e) powr (- power e)))
      else max (min_decay e) (decay e))"

text \<open>
  Modelled from the spec: the constructor of \<open>EMAModel\<close>.  Spec 3 and 4.2: the tracker owns
  a shadow copy of the parameters it is constructed with, a call counter starting at zero,
  and the configuration knobs.
\<close>

definition EMAModel :: "real list list \<Rightarrow> real \<Rightarrow> real \<Rightarrow> bool \<Rightarrow> real \<Rightarrow> real \<Rightarrow> ema_state" where
  "EMAModel ps d md w ig pw =
     \<lparr>shadow_params = ps, optimization_step = 0, decay = d, min_decay = md,
      use_ema_warmup = w, inv_gamma = ig, power = pw, cur_decay_value = 0\<rparr>"

text \<open>
  Modelled from the spec: \<open>EMAModel.step\<close>.  Spec 4.2: with \<open>d\<close> the decay of the current
  call count, every shadow value becomes \<open>shadow + (1 - d) * (current - shadow)\<close> and the
  call counter is incremented; a shape mismatch between shadow and live parameters is fatal.
  The attribute \<open>cur_decay_value\<close>, which line 296 reads, holds the decay of the latest call.
\<close>

definition ema_step :: "ema_state \<Rightarrow> real list list \<Rightarrow> error + ema_state" where
  "ema_step e ps =
     (if map length (shadow_params e) \<noteq> map length ps then Inl (ValueError ''shape mismatch'')
      else
        (let d = get_decay e (optimization_step e)
         in Inr (e\<lparr>shadow_params :=
                      map (\<lambda>(s, p). map (\<lambda>(sv, pv). sv + (1 - d) * (pv - sv)) (zip s p))
                        (zip (shadow_params e) ps),
                    optimization_step := Suc (optimization_step e),
                    cur_decay_value := d\<rparr>)))"

text \<open>
  Modelled from the spec: \<open>EMAModel.state_dict\<close> and \<open>EMAModel.load_state_dict\<close>.  Spec 4.2:
  they serialise and restore the shadow values, the call counter and the configuration
  exactly.
\<close>

definition state_dict :: "ema_state \<Rightarrow> ema_state" where
  "state_dict e = e"

definition load_state_dict :: "ema_state \<Rightarrow> ema_state \<Rightarrow> ema_state" where
  "load_state_dict e sd = sd"

subsection \<open>The collaborators of one worker\<close>

text \<open>
  The file system as the script reads it: \<open>os.path.exists\<close>, the text of a file,
  \<open>torch.load\<close> of a side record (\<open>None\<close> when the file is missing), and the two ways a
  model's weights are read.
\<close>

record fs =
  path_exists :: "path \<Rightarrow> bool"
  read_text :: "path \<Rightarrow> string"
  torch_load_other :: "path \<Rightarrow> other_state option"
  load_file :: "path \<Rightarrow> real list list"
  torch_load_module :: "path \<Rightarrow> real list list"

text \<open>
  Everything else the worker calls.  The table \<open>All_models\<close> gives the parameters of a
  freshly constructed model; \<open>is_transformer\<close> is the outcome of
  \<open>isinstance(model.module, Transformer)\<close>.  The predictor and the scheduler return the
  elements of a tensor of the shape of the image they are given.  \<open>peers\<close> holds the local
  (scale, bias) statistics of the other workers.  The three telemetry sinks either accept
  a call or fail with an exception.
\<close>

record 'sch collab =
  files :: fs
  All_models :: "string \<Rightarrow> real list list option"
  is_transformer :: bool
  new_scheduler :: 'sch
  vae_encode_sample :: "tensor \<Rightarrow> tensor"
  randn :: "nat list \<Rightarrow> real list"
  forward_parallel :: "tensor \<Rightarrow> nat list \<Rightarrow> tensor"
  forward_diffusion :: "tensor \<Rightarrow> int list \<Rightarrow> tensor \<Rightarrow> real list"
  set_timesteps :: "int \<Rightarrow> 'sch \<Rightarrow> 'sch"
  timesteps :: "'sch \<Rightarrow> int list"
  scheduler_step :: "tensor \<Rightarrow> int \<Rightarrow> tensor \<Rightarrow> 'sch \<Rightarrow> real list \<times> 'sch"
  train_dataloader :: "(tensor \<times> nat list) list"
  peers :: "(real \<times> real) list"
  is_main_process :: bool
  sync_gradients :: bool
  num_processes :: nat
  gnorm_item :: real
  logger_info_fails :: "error option"
  accelerator_log_fails :: "error option"
  wandb_log_fails :: "error option"

subsection \<open>Start-up: model, EMA tracker and checkpoint (lines 109--132, 194--218, 246--250)\<close>

definition make_ema :: "args \<Rightarrow> real list list \<Rightarrow> ema_state" where
  \<comment> \<open>lines 125--132\<close>
  "make_ema a ps =
     EMAModel ps (ema_max_decay a) (ema_max_decay a) True (ema_inv_gamma a) (ema_power a)"

definition zip_assign :: "'a list \<Rightarrow> 'a list \<Rightarrow> 'a list" where
  \<comment> \<open>lines 206--207: \<open>zip\<close> stops at the shorter sequence; the parameters beyond it keep
      their values\<close>
  "zip_assign ps cs = take (length ps) cs @ drop (length cs) ps"

text \<open>
  What the checkpoint block leaves in the local variables: the model's parameters and the
  two factors read from the side record (\<open>None\<close> when no checkpoint was found).
\<close>

record resumed =
  r_parameters :: "real list list"
  r_scaling_factor :: "real option"
  r_bias_factor :: "real option"

definition checkpoint_path :: "fs \<Rightarrow> args \<Rightarrow> path option" where
  \<comment> \<open>lines 194--197\<close>
  "checkpoint_path f a =
     (case checkpoint a of
        Some p \<Rightarrow> Some p
      | None \<Rightarrow>
          if path_exists f (join (output_dir a) ''latest'')
          then Some (strip (read_text f (join (output_dir a) ''latest'')))
          else None)"

definition resume :: "fs \<Rightarrow> args \<Rightarrow> real list list \<Rightarrow> resumed run" where
  \<comment> \<open>lines 199--218\<close>
  "resume f a ps =
     (case checkpoint_path f a of
        None \<Rightarrow> ret \<lparr>r_parameters = ps, r_scaling_factor = None, r_bias_factor = None\<rparr>
      | Some cp \<Rightarrow>
          (case torch_load_other f (join cp ''other_state.pth'') of
             None \<Rightarrow> raise (FileNotFoundError (join cp ''other_state.pth''))
           | Some other \<Rightarrow>
               seq (emit (PrintFactors (os_scaling_factor other) (os_bias_factor other))) (\<lambda>_.
               seq (case (if use_ema a then os_ema other else None) of
                      Some ema \<Rightarrow>
                        seq (emit (Print ''Loaded model from checkpoint, EMA applied.'')) (\<lambda>_.
                        ret (zip_assign ps (shadow_params ema)))
                    | None \<Rightarrow>
                        seq (if path_exists f (join cp ''model.safetensors'')
                             then ret (load_file f (join cp ''model.safetensors''))
                             else if path_exists f (join cp ''pytorch_model'')
                             then ret (torch_load_module f
                                    (join (join cp ''pytorch_model'') ''mp_rank_00_model_states.pt''))
                             else raise (ValueError ''Could not find model checkpoint'')) (\<lambda>ckpt.
                        seq (emit (LoadStateDict ckpt)) (\<lambda>_.
                        seq (emit (Print ''Loaded model from checkpoint.'')) (\<lambda>_.
                        ret ckpt)))) (\<lambda>ps'.
               ret \<lparr>r_parameters = ps', r_scaling_factor = os_scaling_factor other,
                    r_bias_factor = os_bias_factor other\<rparr>))))"

definition loop_init :: "resumed \<Rightarrow> ema_state option \<Rightarrow> 'sch \<Rightarrow> 'sch train_state" where
  \<comment> \<open>lines 246--250: \<open>global_step = 0\<close>, \<open>running_loss = 0\<close>, \<open>scaling_factor = None\<close>,
      \<open>bias_factor = None\<close>, assigned after the checkpoint block has run\<close>
  "loop_init r ema sch =
     \<lparr>global_step = 0, running_loss = 0, scaling_factor = None, bias_factor = None,
      ema_model = ema, parameters = r_parameters r, noise_scheduler = sch\<rparr>"

definition prepare :: "'sch collab \<Rightarrow> args \<Rightarrow> 'sch train_state run" where
  \<comment> \<open>lines 109--250, from the construction of the model to the entry of the loop\<close>
  "prepare c a =
     (case All_models c (model a) of
        None \<Rightarrow> raise (KeyError (model a))
      | Some ps \<Rightarrow>
          (let ema = (if use_ema a then Some (make_ema a ps) else None)
           in seq (resume (files c) a ps) (\<lambda>r.
              ret (loop_init r ema (new_scheduler c)))))"

subsection \<open>The reverse-diffusion rollout (lines 273--278)\<close>

fun denoise :: "'sch collab \<Rightarrow> tensor \<Rightarrow> int list \<Rightarrow> tensor \<Rightarrow> 'sch \<Rightarrow> (tensor \<times> 'sch) run" where
  "denoise c condition [] img sch = ret (img, sch)"
| "denoise c condition (t # ts) img sch =
     (case shape img of
        [] \<Rightarrow> raise IndexError
      | bsz # _ \<Rightarrow>
          (let tvec = replicate bsz t;
               model_output = img\<lparr>elems := forward_diffusion c img tvec condition\<rparr>
           in seq (emit (ForwardDiffusion img tvec condition)) (\<lambda>_.
              seq (emit (SchedulerStep model_output t img)) (\<lambda>_.
              (case scheduler_step c model_output t img sch of
                 (prev_sample, sch') \<Rightarrow>
                   denoise c condition ts (img\<lparr>elems := prev_sample\<rparr>) sch')))))"

definition randn_like :: "'sch collab \<Rightarrow> tensor \<Rightarrow> tensor" where
  "randn_like c x = \<lparr>shape = shape x, elems = randn c (shape x)\<rparr>"

definition rollout :: "'sch collab \<Rightarrow> args \<Rightarrow> 'sch \<Rightarrow> tensor \<Rightarrow> nat list \<Rightarrow> (tensor \<times> 'sch) run" where
  "rollout c a sch clean_images label =
     seq (emit (RandnLike (shape clean_images))) (\<lambda>_.
     (let img = randn_like c clean_images;
          condition = forward_parallel c clean_images label
      in seq (emit (ForwardParallel clean_images label)) (\<lambda>_.
         seq (emit (SetTimesteps (ddpm_num_inference_steps a))) (\<lambda>_.
         (let sch' = set_timesteps c (ddpm_num_inference_steps a) sch
          in denoise c condition (timesteps c sch') img sch')))))"

subsection \<open>Logging and checkpointing on a gradient-sync boundary (lines 291--316)\<close>

definition py_mod :: "int \<Rightarrow> int \<Rightarrow> error + int" where
  \<comment> \<open>\<open>a % b\<close> on Python integers\<close>
  "py_mod a b = (if b = 0 then Inl ZeroDivisionError else Inr (a mod b))"

definition lift :: "error + 'a \<Rightarrow> 'a run" where
  "lift r = ([], r)"

definition sink :: "error option \<Rightarrow> event \<Rightarrow> unit run" where
  \<comment> \<open>a call to a telemetry sink: recorded, and either accepted or failing\<close>
  "sink fails ev = (case fails of None \<Rightarrow> emit ev | Some e \<Rightarrow> ([ev], Inl e))"

definition build_logs :: "'sch collab \<Rightarrow> args \<Rightarrow> 'sch train_state \<Rightarrow> nat \<Rightarrow> ('sch train_state \<times> (string \<times> real) list) run" where
  \<comment> \<open>lines 292--296\<close>
  "build_logs c a st epoch =
     (if gradient_accumulation_steps a = 0 then raise ZeroDivisionError
      else
        (let avg_loss = running_loss st / real_of_int (log_every a)
                          / real_of_int (gradient_accumulation_steps a);
             st' = st\<lparr>running_loss := 0\<rparr>
         in if \<not> resolve_global ''gnorm'' then raise (NameError ''gnorm'')
            else
              (let logs = [(''loss'', avg_loss), (''step'', real_of_int (global_step st')),
                           (''gnorm'', gnorm_item c),
                           (''batch size'', real_of_int (batch_size a * int (num_processes c)
                                              * gradient_accumulation_steps a)),
                           (''epoch'', real epoch)]
               in (case (if use_ema a then Some (ema_model st') else None) of
                     None \<Rightarrow> ret (st', logs)
                   | Some None \<Rightarrow> raise (NameError ''ema_model'')
                   | Some (Some e) \<Rightarrow>
                       ret (st', logs @ [(''ema_decay'', cur_decay_value e)])))))"

definition emit_logs :: "'sch collab \<Rightarrow> args \<Rightarrow> (string \<times> real) list \<Rightarrow> int \<Rightarrow> unit run" where
  \<comment> \<open>lines 297--300\<close>
  "emit_logs c a logs step =
     seq (sink (logger_info_fails c) (LoggerInfo ''logs'')) (\<lambda>_.
     seq (sink (accelerator_log_fails c) (AcceleratorLog logs step)) (\<lambda>_.
     if is_main_process c \<and> wandb_project a \<noteq> None
     then sink (wandb_log_fails c) (WandbLog logs step)
     else ret ()))"

definition log_branch :: "'sch collab \<Rightarrow> args \<Rightarrow> 'sch train_state \<Rightarrow> nat \<Rightarrow> 'sch train_state run" where
  "log_branch c a st epoch =
     seq (build_logs c a st epoch) (\<lambda>(st', logs).
     seq (emit_logs c a logs (global_step st')) (\<lambda>_. ret st'))"

definition save_path :: "args \<Rightarrow> 'sch train_state \<Rightarrow> path" where
  \<comment> \<open>line 313\<close>
  "save_path a st = join (output_dir a) (''checkpoint-'' @ str (global_step st))"

definition side_record :: "args \<Rightarrow> 'sch train_state \<Rightarrow> other_state" where
  \<comment> \<open>lines 306--311\<close>
  "side_record a st =
     \<lparr>os_scaling_factor = scaling_factor st, os_bias_factor = bias_factor st,
      os_steps = global_step st,
      os_ema = (if use_ema a then map_option state_dict (ema_model st) else None)\<rparr>"

definition save_checkpoint :: "'sch collab \<Rightarrow> args \<Rightarrow> 'sch train_state \<Rightarrow> path \<Rightarrow> unit run" where
  \<comment> \<open>lines 303--312\<close>
  "save_checkpoint c a st pth =
     seq (emit (SaveState pth)) (\<lambda>_.
     if is_main_process c
     then emit (TorchSave (join pth ''other_state.pth'') (side_record a st))
     else ret ())"

definition checkpoint_branch :: "'sch collab \<Rightarrow> args \<Rightarrow> 'sch train_state \<Rightarrow> unit run" where
  \<comment> \<open>lines 303--316\<close>
  "checkpoint_branch c a st =
     seq (save_checkpoint c a st (save_path a st)) (\<lambda>_.
     seq (emit (SafeBlobWrite (join (output_dir a) ''latest'') (save_path a st))) (\<lambda>_.
     emit (LoggerInfo ''Saved state'')))"

subsection \<open>One training step (lines 256--316) and the loop\<close>

definition after_backward :: "'sch collab \<Rightarrow> args \<Rightarrow> 'sch train_state \<Rightarrow> real \<Rightarrow> nat \<Rightarrow> 'sch train_state run" where
  \<comment> \<open>lines 286--316\<close>
  "after_backward c a st loss epoch =
     (let st1 = st\<lparr>running_loss := running_loss st + loss\<rparr>
      in if \<not> sync_gradients c then ret st1
         else
           (let st2 = st1\<lparr>global_step := global_step st1 + 1\<rparr>
            in seq (if use_ema a
                    then (case ema_model st2 of
                            None \<Rightarrow> raise (NameError ''ema_model'')
                          | Some e \<Rightarrow>
                              seq (emit EmaStep) (\<lambda>_.
                              seq (lift (ema_step e (parameters st2))) (\<lambda>e'.
                              ret (st2\<lparr>ema_model := Some e'\<rparr>))))
                    else ret st2) (\<lambda>st3.
               seq (lift (py_mod (global_step st3) (log_every a))) (\<lambda>m.
               seq (if m = 0 then log_branch c a st3 epoch else ret st3) (\<lambda>st4.
               seq (lift (py_mod (global_step st4) (checkpointing_steps a))) (\<lambda>k.
               seq (if k = 0 then checkpoint_branch c a st4 else ret ()) (\<lambda>_.
               ret st4)))))))"

definition rollout_loss :: "'sch collab \<Rightarrow> args \<Rightarrow> 'sch train_state \<Rightarrow> tensor \<Rightarrow> nat list \<Rightarrow> (real \<times> 'sch) run" where
  \<comment> \<open>lines 271--283: the rollout, the loss, \<open>print(loss)\<close> and \<open>exit()\<close>\<close>
  "rollout_loss c a st clean_images label =
     (if length (shape clean_images) \<noteq> 4 then raise (ValueError ''cannot unpack shape'')
      else if is_transformer c
      then seq (rollout c a (noise_scheduler st) clean_images label) (\<lambda>(img, sch).
           (let loss = mse_loss img clean_images
            in seq (emit (PrintLoss loss)) (\<lambda>_.
               seq (raise SystemExit :: unit run) (\<lambda>_.
               ret (loss, sch)))))
      else raise NotImplementedError)"

definition train_step :: "'sch collab \<Rightarrow> args \<Rightarrow> nat \<Rightarrow> 'sch train_state \<Rightarrow> tensor \<times> nat list \<Rightarrow> 'sch train_state run" where
  "train_step c a epoch st batch =
     (case batch of
        (clean_images, label) \<Rightarrow>
          seq (emit (VaeEncode clean_images)) (\<lambda>_.
          seq (normalize (peers c) st (vae_encode_sample c clean_images)) (\<lambda>(st1, clean).
          seq (rollout_loss c a st1 clean label) (\<lambda>(loss, sch).
          seq (emit (Backward loss)) (\<lambda>_.
          after_backward c a (st1\<lparr>noise_scheduler := sch\<rparr>) loss epoch)))))"

fun train_batches :: "'sch collab \<Rightarrow> args \<Rightarrow> nat \<Rightarrow> 'sch train_state \<Rightarrow> (tensor \<times> nat list) list \<Rightarrow> 'sch train_state run" where
  "train_batches c a epoch st [] = ret st"
| "train_batches c a epoch st (b # bs) =
     seq (train_step c a epoch st b) (\<lambda>st'. train_batches c a epoch st' bs)"

fun train_epochs :: "'sch collab \<Rightarrow> args \<Rightarrow> 'sch train_state \<Rightarrow> nat list \<Rightarrow> 'sch train_state run" where
  "train_epochs c a st [] = ret st"
| "train_epochs c a st (epoch # es) =
     seq (train_batches c a epoch st (train_dataloader c)) (\<lambda>st'. train_epochs c a st' es)"

subsection \<open>\<open>main\<close> (lines 103--318)\<close>

text \<open>
  The calls that only configure logging, the accelerator and the data set carry no state
  that the rest of the procedure reads, and are left out; library calls are taken to
  return normally unless a definition above says otherwise.  Line 107 reads the name
  \<open>load_vae\<close>, which \<open>main\<close> never assigns.
\<close>

definition main_body :: "'sch collab \<Rightarrow> args \<Rightarrow> unit run" where
  \<comment> \<open>lines 109--318\<close>
  "main_body c a =
     seq (prepare c a) (\<lambda>st.
     seq (train_epochs c a st [0..<nat (num_epochs a)]) (\<lambda>_.
     emit EndTraining))"

definition main :: "'sch collab \<Rightarrow> args \<Rightarrow> unit run" where
  "main c a =
     seq (emit (SetSeed (seed a))) (\<lambda>_.
     if \<not> resolve_global ''load_vae'' then raise (NameError ''load_vae'')
     else main_body c a)"

subsection \<open>Observing a run\<close>

text \<open>
  The calls of a rollout, with the data that identifies them: the shape the noise is drawn
  for, the conditioning a predictor call is given, the timestep of a scheduler update.
\<close>

datatype call =
    Noise "nat list"
  | Conditioning tensor "nat list"
  | Timesteps int
  | Predict "int list" tensor
  | Update int
  | Other

fun call_of :: "event \<Rightarrow> call" where
  "call_of (RandnLike sh) = Noise sh"
| "call_of (ForwardParallel x l) = Conditioning x l"
| "call_of (SetTimesteps n) = Timesteps n"
| "call_of (ForwardDiffusion img tvec condition) = Predict tvec condition"
| "call_of (SchedulerStep model_output t img) = Update t"
| "call_of _ = Other"

fun factors :: "error + 'sch train_state \<Rightarrow> (int \<times> real option \<times> real option) option" where
  "factors (Inl e) = None"
| "factors (Inr st) = Some (global_step st, scaling_factor st, bias_factor st)"

subsection \<open>A concrete worker\<close>

text \<open>
  A single worker with a one-parameter model, whose scheduler state is its list of
  timesteps, on a data set of one batch; and a file system holding one checkpoint,
  \<open>results/checkpoint-500\<close>, named by the latest pointer.
\<close>

definition no_files :: fs where
  "no_files =
     \<lparr>path_exists = (\<lambda>p. False), read_text = (\<lambda>p. []), torch_load_other = (\<lambda>p. None),
      load_file = (\<lambda>p. []), torch_load_module = (\<lambda>p. [])\<rparr>"

definition batch0 :: tensor where
  "batch0 = \<lparr>shape = [1, 1, 1, 3], elems = [0, 2, 4]\<rparr>"

definition batch1 :: tensor where
  "batch1 = \<lparr>shape = [1, 1, 1, 3], elems = [0, 1, 2]\<rparr>"

definition solo_worker :: "int list collab" where
  "solo_worker =
     \<lparr>files = no_files,
      All_models = (\<lambda>n. if n = ''DiT-Medium'' then Some [[1]] else None),
      is_transformer = True,
      new_scheduler = [],
      vae_encode_sample = (\<lambda>x. x),
      randn = (\<lambda>sh. replicate (prod_list sh) 0),
      forward_parallel = (\<lambda>x l. x),
      forward_diffusion = (\<lambda>img tvec condition. elems img),
      set_timesteps = (\<lambda>n sch. rev (map int [0..<nat n])),
      timesteps = (\<lambda>sch. sch),
      scheduler_step = (\<lambda>model_output t img sch. (elems img, sch)),
      train_dataloader = [(batch0, [7])],
      peers = [],
      is_main_process = True,
      sync_gradients = True,
      num_processes = 1,
      gnorm_item = 0,
      logger_info_fails = None,
      accelerator_log_fails = None,
      wandb_log_fails = None\<rparr>"

definition saved_ema :: ema_state where
  "saved_ema =
     \<lparr>shadow_params = [[5]], optimization_step = 10, decay = 9999 / 10000,
      min_decay = 9999 / 10000, use_ema_warmup = True, inv_gamma = 1, power = 3 / 4,
      cur_decay_value = 9999 / 10000\<rparr>"

definition checkpoint_500 :: fs where
  "checkpoint_500 =
     \<lparr>path_exists = (\<lambda>p. p \<in> set [''results/latest'', ''results/checkpoint-500/model.safetensors'']),
      read_text = (\<lambda>p. if p = ''results/latest'' then ''results/checkpoint-500'' @ [CHR 0x0A] else []),
      torch_load_other =
        (\<lambda>p. if p = ''results/checkpoint-500/other_state.pth''
             then Some \<lparr>os_scaling_factor = Some 2, os_bias_factor = Some (- 3 / 2),
                        os_steps = 500, os_ema = Some saved_ema\<rparr>
             else None),
      load_file = (\<lambda>p. [[3]]),
      torch_load_module = (\<lambda>p. [])\<rparr>"

definition stepping_worker :: "int list collab" where
  \<comment> \<open>the same worker with a predictor that returns the image minus the conditioning, and
      a scheduler step that moves the image by half the model output\<close>
  "stepping_worker =
     solo_worker
       \<lparr>forward_diffusion :=
          (\<lambda>img tvec condition. map (\<lambda>(x, y). x - y) (zip (elems img) (elems condition))),
        scheduler_step :=
          (\<lambda>model_output t img sch.
             (map (\<lambda>(x, e). x - e / 2) (zip (elems img) (elems model_output)), sch))\<rparr>"

definition at_step :: "int \<Rightarrow> int list train_state" where
  \<comment> \<open>a loop state of that worker at a given step count, the transform fixed at (1/2, -2)\<close>
  "at_step n =
     \<lparr>global_step = n, running_loss = 0, scaling_factor = Some (1 / 2), bias_factor = Some (- 2),
      ema_model = None, parameters = [[1]], noise_scheduler = []\<rparr>"

subsection \<open>The rollout as a fold\<close>

text \<open>
  The rollout in the spec's words (4.5, steps 4 and 5), to be compared with \<open>denoise\<close>: at
  each timestep the predictor is given the current image, the timestep repeated over the
  batch, and the conditioning; the scheduler's step is given the model output, the timestep
  and the current image, and its result is the next image.  \<open>states_before\<close> lists the image
  and scheduler state each step starts from.
\<close>

definition model_output_at :: "'sch collab \<Rightarrow> tensor \<Rightarrow> tensor \<Rightarrow> int \<Rightarrow> tensor" where
  "model_output_at c condition img t =
     img\<lparr>elems := forward_diffusion c img (replicate (hd (shape img)) t) condition\<rparr>"

definition reverse_step :: "'sch collab \<Rightarrow> tensor \<Rightarrow> tensor \<times> 'sch \<Rightarrow> int \<Rightarrow> tensor \<times> 'sch" where
  "reverse_step c condition s t =
     (case scheduler_step c (model_output_at c condition (fst s) t) t (fst s) (snd s) of
        (prev_sample, sch') \<Rightarrow> ((fst s)\<lparr>elems := prev_sample\<rparr>, sch'))"

fun states_before :: "('s \<Rightarrow> 't \<Rightarrow> 's) \<Rightarrow> 's \<Rightarrow> 't list \<Rightarrow> 's list" where
  "states_before f s [] = []"
| "states_before f s (t # ts) = s # states_before f (f s t) ts"

definition reverse_step_calls :: "'sch collab \<Rightarrow> tensor \<Rightarrow> tensor \<times> 'sch \<Rightarrow> int list \<Rightarrow> event list" where
  "reverse_step_calls c condition s ts =
     concat (map (\<lambda>(s', t).
                    [ForwardDiffusion (fst s') (replicate (hd (shape (fst s'))) t) condition,
                     SchedulerStep (model_output_at c condition (fst s') t) t (fst s')])
               (zip (states_before (reverse_step c condition) s ts) ts))"

subsection \<open>Two workers at a checkpoint step\<close>


fun exposes_incomplete :: "path list \<Rightarrow> event list \<Rightarrow> bool" where
  "exposes_incomplete saved [] = False"
| "exposes_incomplete saved (TorchSave pth other # evs) = exposes_incomplete (pth # saved) evs"
| "exposes_incomplete saved (SafeBlobWrite pointer dir # evs) =
     (if join dir ''other_state.pth'' \<in> set saved then exposes_incomplete saved evs else True)"
| "exposes_incomplete saved (ev # evs) = exposes_incomplete saved evs"

section \<open>Properties\<close>

subsection \<open>Sequencing\<close>

lemma seq_Inr [simp]: "seq (tr, Inr x) f = (tr @ fst (f x), snd (f x))"
  by (cases "f x") (simp add: seq_def)

lemma seq_Inl [simp]: "seq (tr, Inl e) f = (tr, Inl e)"
  by (simp add: seq_def)

lemma seq_ret [simp]: "seq (ret x) f = f x"
  by (cases "f x") (simp add: seq_def ret_def)

lemma seq_raise [simp]: "seq (raise e) f = raise e"
  by (simp add: seq_def raise_def)

lemma seq_emit [simp]: "seq (emit ev) f = (ev # fst (f ()), snd (f ()))"
  by (cases "f ()") (simp add: seq_def emit_def)

lemma seq_stops: "snd m = Inl e \<Longrightarrow> seq m f = (fst m, Inl e)"
  by (cases m) simp

lemma seq_goes: "snd m = Inr x \<Longrightarrow> seq m f = (fst m @ fst (f x), snd (f x))"
  by (cases m) simp

subsection \<open>Start-up: the name \<open>load_vae\<close>\<close>

text \<open>
  C10.  For every argument configuration and every behaviour of the collaborators, \<open>main\<close>
  ends with \<open>NameError\<close> for \<open>load_vae\<close> at line 107: the name is neither defined in the
  module nor imported.  The only call made before that is \<open>set_seed\<close>; no batch is encoded,
  no normalisation or training step runs, and nothing is written.
\<close>

theorem main_raises_NameError:
  "main c a = ([SetSeed (seed a)], Inl (NameError ''load_vae''))"
  by (simp add: main_def resolve_global_def module_globals_def builtins_def raise_def)

subsection \<open>The normalisation transform\<close>

lemma sum_list_others:
  "i < length xs \<Longrightarrow> xs ! i + sum_list (take i xs @ drop (Suc i) xs) = sum_list (xs :: real list)"
proof -
  assume "i < length xs"
  then have "xs = take i xs @ xs ! i # drop (Suc i) xs"
    by (simp add: id_take_nth_drop)
  then have "sum_list xs = sum_list (take i xs @ xs ! i # drop (Suc i) xs)"
    by simp
  then show ?thesis by simp
qed

lemma std_batch0: "tensor_std batch0 = 2"
  by (simp add: tensor_std_def tensor_mean_def batch0_def power2_eq_square)

lemma std_batch1: "tensor_std batch1 = 1"
  by (simp add: tensor_std_def tensor_mean_def batch1_def power2_eq_square)

lemma mean_batch0: "tensor_mean batch0 = 2"
  by (simp add: tensor_mean_def batch0_def)

lemma mean_batch1: "tensor_mean batch1 = 1"
  by (simp add: tensor_mean_def batch1_def)

text \<open>
  C3.  On the first normalisation call of a run (the scale is unset), worker \<open>i\<close> computes
  its local scale \<open>1/std\<close> and bias \<open>-mean\<close> over all elements of its batch; both scalars are
  sum-reduced over the workers and divided by the world size.  Whatever \<open>i\<close> is, the worker
  ends the call with the same pair: the arithmetic means of the workers' local scales and
  local biases, and its batch is transformed with that pair.
\<close>

theorem first_normalization_is_global_mean:
  assumes "i < length bs" and "list_all finite_stats bs" and "scaling_factor st = None"
  shows "snd (normalize (peers_of bs i) st (bs ! i)) =
           Inr (st\<lparr>scaling_factor := Some (sum_list (map (\<lambda>b. 1 / tensor_std b) bs) / real (length bs)),
                    bias_factor := Some (sum_list (map (\<lambda>b. - tensor_mean b) bs) / real (length bs))\<rparr>,
                affine (bs ! i)
                  (sum_list (map (\<lambda>b. - tensor_mean b) bs) / real (length bs))
                  (sum_list (map (\<lambda>b. 1 / tensor_std b) bs) / real (length bs)))"
proof -
  let ?sc = "map (\<lambda>b. 1 / tensor_std b) bs" and ?bi = "map (\<lambda>b. - tensor_mean b) bs"
  have n: "get_world_size (peers_of bs i) = length bs"
    using assms(1) by (simp add: get_world_size_def peers_of_def)
  have sc: "all_reduce_sum (map fst (peers_of bs i)) (local_scale (bs ! i)) = sum_list ?sc"
    using sum_list_others [of i ?sc] assms(1)
    by (simp add: all_reduce_sum_def peers_of_def local_scale_def comp_def take_map drop_map)
  have bi: "all_reduce_sum (map snd (peers_of bs i)) (local_bias (bs ! i)) = sum_list ?bi"
    using sum_list_others [of i ?bi] assms(1)
    by (simp add: all_reduce_sum_def peers_of_def local_bias_def comp_def take_map drop_map)
  show ?thesis
    using assms(3) by (simp add: normalize_def Let_def n sc bi ret_def)
qed

theorem first_normalization_is_global_mean_witness:
  "(0::nat) < length [batch0, batch1] \<and> list_all finite_stats [batch0, batch1] \<and>
   snd (normalize (peers_of [batch0, batch1] 0)
          (loop_init \<lparr>r_parameters = [], r_scaling_factor = None, r_bias_factor = None\<rparr> None ())
          batch0) =
     Inr (\<lparr>global_step = 0, running_loss = 0, scaling_factor = Some (3 / 4),
           bias_factor = Some (- 3 / 2), ema_model = None, parameters = [],
           noise_scheduler = ()\<rparr>,
          \<lparr>shape = [1, 1, 1, 3], elems = [- 9 / 8, 3 / 8, 15 / 8]\<rparr>)"
proof -
  have h1: "(0::nat) < length [batch0, batch1]" by simp
  have h2: "list_all finite_stats [batch0, batch1]"
    by (simp add: finite_stats_def std_batch0 std_batch1) (simp add: batch0_def batch1_def)
  have h3: "scaling_factor
              (loop_init \<lparr>r_parameters = [], r_scaling_factor = None, r_bias_factor = None\<rparr> None ()) = None"
    by (simp add: loop_init_def)
  show ?thesis
    using h1 h2 first_normalization_is_global_mean [OF h1 h2 h3]
    by (simp add: std_batch0 std_batch1 mean_batch0 mean_batch1 loop_init_def affine_def)
       (simp add: batch0_def)
qed

lemma normalize_when_set:
  "scaling_factor st = Some s \<Longrightarrow> bias_factor st = Some b \<Longrightarrow>
   normalize ps st x = ([], Inr (st, affine x b s))"
  by (simp add: normalize_def ret_def)

text \<open>
  C1.  Resuming from the checkpoint \<open>results/checkpoint-500\<close> (scale 2, bias -1.5, 500
  steps), found through the latest pointer: the checkpoint block reads and prints the two
  factors, but lines 246--250 then reset them, so the loop is entered with both factors
  unset and the step counter at 0, and the first normalisation call computes a new pair,
  (1/2, -2), from the batch.
\<close>

theorem resume_discards_restored_factors:
  "fst (prepare (solo_worker\<lparr>files := checkpoint_500\<rparr>) default_args) =
     [PrintFactors (Some 2) (Some (- 3 / 2)), LoadStateDict [[3]],
      Print ''Loaded model from checkpoint.'']
   \<and> factors (snd (prepare (solo_worker\<lparr>files := checkpoint_500\<rparr>) default_args)) =
       Some (0, None, None)
   \<and> factors (map_sum id fst
        (snd (seq (prepare (solo_worker\<lparr>files := checkpoint_500\<rparr>) default_args)
                (\<lambda>st. normalize (peers solo_worker) st batch0)))) =
       Some (0, Some (1 / 2), Some (- 2))"
  by (simp add: prepare_def solo_worker_def default_args_def resume_def checkpoint_path_def
      checkpoint_500_def join_def strip_def is_space_def loop_init_def emit_def ret_def raise_def
      normalize_def Let_def local_scale_def local_bias_def std_batch0 mean_batch0
      all_reduce_sum_def get_world_size_def)

text \<open>
  C4.  The transform set from the checkpoint \<open>results/checkpoint-500\<close> does not stay as it
  is: the checkpoint block leaves the pair (2, -3/2) in the local variables, lines 249--250
  unset it, and the first normalisation call of the loop sets the pair (1/2, -2) and
  transforms the batch \<open>[0, 2, 4]\<close> with it, to \<open>[-1, 0, 1]\<close>; with the restored pair the
  batch would have become \<open>[-3, 1, 5]\<close>.
\<close>

theorem restored_transform_is_replaced:
  "map_sum id (\<lambda>r. (r_scaling_factor r, r_bias_factor r))
     (snd (resume checkpoint_500 default_args [[1]])) = Inr (Some 2, Some (- 3 / 2))
   \<and> map_sum id (\<lambda>(st, y). (scaling_factor st, bias_factor st, elems y))
       (snd (seq (prepare (solo_worker\<lparr>files := checkpoint_500\<rparr>) default_args)
               (\<lambda>st. normalize (peers solo_worker) st batch0))) =
       Inr (Some (1 / 2), Some (- 2), [- 1, 0, 1])
   \<and> elems (affine batch0 (- 3 / 2) 2) = [- 3, 1, 5]"
  by (simp add: prepare_def solo_worker_def default_args_def resume_def checkpoint_path_def
      checkpoint_500_def join_def strip_def is_space_def loop_init_def emit_def ret_def raise_def
      normalize_def Let_def local_scale_def local_bias_def std_batch0 mean_batch0
      all_reduce_sum_def get_world_size_def affine_def)
     (simp add: batch0_def)

subsection \<open>The rollout and the training step\<close>

lemma denoise_calls:
  "shape img \<noteq> [] \<Longrightarrow>
   map call_of (fst (denoise c condition ts img sch)) =
     concat (map (\<lambda>t. [Predict (replicate (hd (shape img)) t) condition, Update t]) ts)
   \<and> \<not> isl (snd (denoise c condition ts img sch))"
proof (induction ts arbitrary: img sch)
  case Nil
  then show ?case by (simp add: ret_def)
next
  case (Cons t ts)
  obtain bsz rest where sh: "shape img = bsz # rest"
    using Cons.prems by (cases "shape img") auto
  obtain prev sch' where st:
    "scheduler_step c (img\<lparr>elems := forward_diffusion c img (replicate bsz t) condition\<rparr>) t img sch
       = (prev, sch')"
    by (cases "scheduler_step c
                 (img\<lparr>elems := forward_diffusion c img (replicate bsz t) condition\<rparr>) t img sch")
       auto
  have "shape (img\<lparr>elems := prev\<rparr>) \<noteq> []" using sh by simp
  from Cons.IH [OF this, of sch'] sh st show ?case
    by (simp add: Let_def emit_def)
qed

lemma rollout_calls:
  assumes "shape clean_images \<noteq> []"
  shows "map call_of (fst (rollout c a sch clean_images label)) =
           [Noise (shape clean_images), Conditioning clean_images label,
            Timesteps (ddpm_num_inference_steps a)] @
           concat (map (\<lambda>t. [Predict (replicate (hd (shape clean_images)) t)
                               (forward_parallel c clean_images label), Update t])
                     (timesteps c (set_timesteps c (ddpm_num_inference_steps a) sch)))
         \<and> \<not> isl (snd (rollout c a sch clean_images label))"
proof -
  have "shape (randn_like c clean_images) \<noteq> []"
    using assms by (simp add: randn_like_def)
  from denoise_calls [OF this] show ?thesis
    by (simp add: rollout_def Let_def emit_def randn_like_def)
qed

lemma denoise_fold:
  "shape img \<noteq> [] \<Longrightarrow>
   denoise c condition ts img sch =
     (reverse_step_calls c condition (img, sch) ts,
      Inr (foldl (reverse_step c condition) (img, sch) ts))"
proof (induction ts arbitrary: img sch)
  case Nil
  then show ?case by (simp add: ret_def reverse_step_calls_def)
next
  case (Cons t ts)
  obtain bsz rest where sh: "shape img = bsz # rest"
    using Cons.prems by (cases "shape img") auto
  obtain prev sch' where st:
    "scheduler_step c (img\<lparr>elems := forward_diffusion c img (replicate bsz t) condition\<rparr>) t img sch
       = (prev, sch')"
    by (cases "scheduler_step c
                 (img\<lparr>elems := forward_diffusion c img (replicate bsz t) condition\<rparr>) t img sch")
       auto
  have rs: "reverse_step c condition (img, sch) t = (img\<lparr>elems := prev\<rparr>, sch')"
    using sh st by (simp add: reverse_step_def model_output_at_def)
  have "shape (img\<lparr>elems := prev\<rparr>) \<noteq> []" using sh by simp
  from Cons.IH [OF this, of sch'] sh st rs show ?case
    by (simp add: Let_def emit_def reverse_step_calls_def model_output_at_def)
qed

text \<open>
  C7, as amended.  In a training step whose model is a \<open>Transformer\<close> and whose latent has
  four dimensions, the rollout is this: the image starts as noise drawn for the shape of the
  normalised latent; the conditioning is computed once, from the latent and the labels; the
  scheduler's timesteps are set to the configured inference-step count; then, for each of
  the scheduler's timesteps in order, the predictor is called once on the current image
  with that conditioning, and the scheduler's step, given the model output and the current
  image, yields the next image.  The rollout returns the image after the last step, the
  loss is taken between it and the latent, and no other call is made.  (Without a
  \<open>Transformer\<close> the step raises \<open>NotImplementedError\<close> and makes none of these calls.)
\<close>

theorem rollout_is_fold_of_reverse_steps:
  assumes "is_transformer c" and "length (shape x) = 4"
  shows "rollout c a (noise_scheduler st) x lab =
           ([RandnLike (shape x), ForwardParallel x lab, SetTimesteps (ddpm_num_inference_steps a)] @
            reverse_step_calls c (forward_parallel c x lab)
              (randn_like c x, set_timesteps c (ddpm_num_inference_steps a) (noise_scheduler st))
              (timesteps c (set_timesteps c (ddpm_num_inference_steps a) (noise_scheduler st))),
            Inr (foldl (reverse_step c (forward_parallel c x lab))
                   (randn_like c x, set_timesteps c (ddpm_num_inference_steps a) (noise_scheduler st))
                   (timesteps c (set_timesteps c (ddpm_num_inference_steps a) (noise_scheduler st)))))
         \<and> rollout_loss c a st x lab =
           ([RandnLike (shape x), ForwardParallel x lab, SetTimesteps (ddpm_num_inference_steps a)] @
            reverse_step_calls c (forward_parallel c x lab)
              (randn_like c x, set_timesteps c (ddpm_num_inference_steps a) (noise_scheduler st))
              (timesteps c (set_timesteps c (ddpm_num_inference_steps a) (noise_scheduler st))) @
            [PrintLoss (mse_loss
               (fst (foldl (reverse_step c (forward_parallel c x lab))
                   (randn_like c x, set_timesteps c (ddpm_num_inference_steps a) (noise_scheduler st))
                   (timesteps c (set_timesteps c (ddpm_num_inference_steps a) (noise_scheduler st)))))
               x)],
            Inl SystemExit)
         \<and> shape (randn_like c x) = shape x"
proof -
  have sh: "shape (randn_like c x) \<noteq> []"
    using assms(2) by (auto simp add: randn_like_def)
  have r: "rollout c a (noise_scheduler st) x lab =
           ([RandnLike (shape x), ForwardParallel x lab, SetTimesteps (ddpm_num_inference_steps a)] @
            reverse_step_calls c (forward_parallel c x lab)
              (randn_like c x, set_timesteps c (ddpm_num_inference_steps a) (noise_scheduler st))
              (timesteps c (set_timesteps c (ddpm_num_inference_steps a) (noise_scheduler st))),
            Inr (foldl (reverse_step c (forward_parallel c x lab))
                   (randn_like c x, set_timesteps c (ddpm_num_inference_steps a) (noise_scheduler st))
                   (timesteps c (set_timesteps c (ddpm_num_inference_steps a) (noise_scheduler st)))))"
    by (simp add: rollout_def Let_def emit_def denoise_fold [OF sh])
  show ?thesis
    using assms by (simp add: r rollout_loss_def Let_def emit_def raise_def split_beta) (simp add: randn_like_def)
qed

theorem rollout_is_fold_of_reverse_steps_witness:
  "is_transformer stepping_worker \<and> length (shape batch0) = 4 \<and>
   rollout_loss stepping_worker (default_args\<lparr>ddpm_num_inference_steps := 2\<rparr>) (at_step 0) batch0 [7] =
     ([RandnLike [1, 1, 1, 3], ForwardParallel batch0 [7], SetTimesteps 2,
       ForwardDiffusion \<lparr>shape = [1, 1, 1, 3], elems = [0, 0, 0]\<rparr> [1] batch0,
       SchedulerStep \<lparr>shape = [1, 1, 1, 3], elems = [0, - 2, - 4]\<rparr> 1
         \<lparr>shape = [1, 1, 1, 3], elems = [0, 0, 0]\<rparr>,
       ForwardDiffusion \<lparr>shape = [1, 1, 1, 3], elems = [0, 1, 2]\<rparr> [0] batch0,
       SchedulerStep \<lparr>shape = [1, 1, 1, 3], elems = [0, - 1, - 2]\<rparr> 0
         \<lparr>shape = [1, 1, 1, 3], elems = [0, 1, 2]\<rparr>,
       PrintLoss (5 / 12)],
      Inl SystemExit)
   \<and> snd (rollout stepping_worker (default_args\<lparr>ddpm_num_inference_steps := 2\<rparr>) [] batch0 [7]) =
       Inr (\<lparr>shape = [1, 1, 1, 3], elems = [0, 3 / 2, 3]\<rparr>, [1, 0])"
proof -
  have h1: "is_transformer stepping_worker"
    by (simp add: stepping_worker_def solo_worker_def)
  have h2: "length (shape batch0) = 4" by (simp add: batch0_def)
  have ns: "noise_scheduler (at_step 0) = []" by (simp add: at_step_def)
  show ?thesis
    using h1 h2 rollout_is_fold_of_reverse_steps [OF h1 h2, of "default_args\<lparr>ddpm_num_inference_steps := 2\<rparr>" "at_step 0" "[7]"]
    by (simp add: ns stepping_worker_def solo_worker_def default_args_def upt_rec
        reverse_step_calls_def reverse_step_def model_output_at_def randn_like_def mse_loss_def
        power2_eq_square batch0_def numeral_3_eq_3)
qed

theorem no_rollout_without_transformer:
  "train_step (solo_worker\<lparr>is_transformer := False\<rparr>) default_args 0
     (loop_init \<lparr>r_parameters = [[1]], r_scaling_factor = None, r_bias_factor = None\<rparr> None [])
     (batch0, [7]) =
     ([VaeEncode batch0, AllReduce (1 / 2), AllReduce (- 2),
       LoggerInfo ''Scaling factor, Bias factor''],
      Inl NotImplementedError)"
  by (simp add: train_step_def solo_worker_def loop_init_def normalize_def Let_def local_scale_def
      local_bias_def std_batch0 mean_batch0 all_reduce_sum_def get_world_size_def emit_def ret_def
      raise_def rollout_loss_def affine_def)
     (simp add: batch0_def)

lemma normalize_no_backward: "Backward l \<notin> set (fst (normalize ps st x))"
  by (simp add: normalize_def Let_def emit_def ret_def raise_def split: option.splits)

lemma rollout_no_backward:
  assumes "shape x \<noteq> []"
  shows "Backward l \<notin> set (fst (rollout c a sch x lab))"
proof
  assume "Backward l \<in> set (fst (rollout c a sch x lab))"
  then have "call_of (Backward l) \<in> set (map call_of (fst (rollout c a sch x lab)))"
    by (simp only: set_map) (rule imageI)
  then show False
    using rollout_calls [OF assms, of c a sch lab] by auto
qed

lemma rollout_loss_stops:
  "isl (snd (rollout_loss c a st x lab)) \<and> Backward l \<notin> set (fst (rollout_loss c a st x lab))"
proof (cases "length (shape x) = 4 \<and> is_transformer c")
  case False
  then show ?thesis by (auto simp add: rollout_loss_def raise_def)
next
  case True
  then have sh: "shape x \<noteq> []" by auto
  obtain img sch where r: "snd (rollout c a (noise_scheduler st) x lab) = Inr (img, sch)"
    using rollout_calls [OF sh, of c a "noise_scheduler st" lab]
    by (cases "snd (rollout c a (noise_scheduler st) x lab)") auto
  show ?thesis
    using True rollout_no_backward [OF sh, of l c a "noise_scheduler st" lab]
    by (simp add: rollout_loss_def seq_goes [OF r] Let_def emit_def raise_def)
qed

text \<open>
  C2.  No training step reaches \<open>accelerator.backward\<close>: whatever the batch, the state and
  the collaborators, the step ends in an exception first (at the latest the \<open>SystemExit\<close> of
  \<open>exit()\<close> at line 281, or \<open>NotImplementedError\<close> for a model that is not a
  \<open>Transformer\<close>), so the step counter, the EMA update and the logging and checkpointing
  cadence of lines 284--316 are never evaluated.
\<close>

theorem train_step_never_reaches_backward:
  "isl (snd (train_step c a epoch st batch))
   \<and> Backward l \<notin> set (fst (train_step c a epoch st batch))"
proof -
  obtain x lab where b: "batch = (x, lab)" by (cases batch)
  show ?thesis
  proof (cases "snd (normalize (peers c) st (vae_encode_sample c x))")
    case (Inl e)
    then show ?thesis
      using normalize_no_backward [of l "peers c" st "vae_encode_sample c x"]
      by (simp add: train_step_def b emit_def seq_stops [OF Inl])
  next
    case (Inr r)
    obtain st1 y where r: "r = (st1, y)" by (cases r)
    obtain e where e: "snd (rollout_loss c a st1 y lab) = Inl e"
      using rollout_loss_stops [of c a st1 y lab l]
      by (cases "snd (rollout_loss c a st1 y lab)") auto
    show ?thesis
      using normalize_no_backward [of l "peers c" st "vae_encode_sample c x"]
        rollout_loss_stops [of c a st1 y lab l]
      by (simp add: train_step_def b emit_def seq_goes [OF Inr] r seq_stops [OF e])
  qed
qed

subsection \<open>The EMA tracker\<close>

lemma get_decay_pinned: "min_decay e = decay e \<Longrightarrow> get_decay e n = decay e"
  by (simp add: get_decay_def)

lemma get_decay_mono:
  assumes "use_ema_warmup e" and "0 < inv_gamma e" and "0 \<le> power e" and "s1 \<le> s2"
  shows "get_decay e s1 \<le> get_decay e s2"
proof -
  have "1 + real s1 / inv_gamma e \<le> 1 + real s2 / inv_gamma e"
    using assms(2,4) by (simp add: divide_right_mono)
  moreover have "0 < 1 + real s1 / inv_gamma e"
    using assms(2) by (simp add: add_pos_nonneg)
  ultimately have "(1 + real s2 / inv_gamma e) powr (- power e)
                     \<le> (1 + real s1 / inv_gamma e) powr (- power e)"
    using assms(3) by (intro powr_mono2') simp_all
  then show ?thesis
    using assms(1) by (simp add: get_decay_def)
qed

lemma get_decay_capped: "min_decay e \<le> decay e \<Longrightarrow> get_decay e s \<le> decay e"
  by (simp add: get_decay_def)

lemma get_decay_start:
  "use_ema_warmup e \<Longrightarrow> min_decay e = 0 \<Longrightarrow> 0 \<le> decay e \<Longrightarrow> get_decay e 0 = 0"
  by (simp add: get_decay_def)

lemma ema_round_trip: "ema_step (load_state_dict e' (state_dict e)) ps = ema_step e ps"
  by (simp add: load_state_dict_def state_dict_def)

text \<open>
  C6, as amended.  For the tracker the orchestrator constructs (warmup enabled,
  \<open>min_decay = max_decay\<close>) and any two step counts \<open>s1 < s2\<close>, the decay at \<open>s1\<close> is at
  most the decay at \<open>s2\<close>, which is at most \<open>max_decay\<close>; and the decay at \<open>s1\<close> already
  equals \<open>max_decay\<close>: the schedule is constant and does not rise from near 0.
\<close>

theorem orchestrator_decay_constant:
  "s1 < s2 \<Longrightarrow>
   get_decay (make_ema a ps) s1 \<le> get_decay (make_ema a ps) s2
   \<and> get_decay (make_ema a ps) s2 \<le> ema_max_decay a
   \<and> get_decay (make_ema a ps) s1 = ema_max_decay a"
  by (simp add: get_decay_pinned make_ema_def EMAModel_def)

theorem orchestrator_decay_constant_witness:
  "(0::nat) < 1000 \<and>
   get_decay (make_ema default_args [[1]]) 0 \<le> get_decay (make_ema default_args [[1]]) 1000
   \<and> get_decay (make_ema default_args [[1]]) 1000 \<le> 9999 / 10000
   \<and> get_decay (make_ema default_args [[1]]) 0 = 9999 / 10000"
  using orchestrator_decay_constant [of 0 1000 default_args "[[1]]"]
  by (simp add: default_args_def)

theorem decay_does_not_rise:
  "\<not> get_decay (make_ema default_args [[1]]) 0 < get_decay (make_ema default_args [[1]]) 1000
   \<and> get_decay (make_ema default_args [[1]]) 0 = 9999 / 10000"
  by (simp add: get_decay_pinned make_ema_def EMAModel_def default_args_def)

text \<open>
  C5.  Resuming with \<open>--use_ema\<close> from the checkpoint \<open>results/checkpoint-500\<close>, whose
  side record holds an EMA state with shadow value 5 and call counter 10: the checkpoint
  block copies the stored shadow values into the model's parameters and leaves the tracker
  as constructed at lines 125--132 (shadow value 1, the initial parameter, and counter 0).
  One \<open>step\<close> of that tracker gives shadow 2501/2500 and counter 1; one \<open>step\<close> of the
  tracker restored from the stored state gives shadow 5 and counter 11.
\<close>

theorem resume_leaves_ema_tracker_fresh:
  "map_sum id (\<lambda>st. (ema_model st, parameters st))
     (snd (prepare (solo_worker\<lparr>files := checkpoint_500\<rparr>) (default_args\<lparr>use_ema := True\<rparr>))) =
     Inr (Some \<lparr>shadow_params = [[1]], optimization_step = 0, decay = 9999 / 10000,
                min_decay = 9999 / 10000, use_ema_warmup = True, inv_gamma = 1, power = 3 / 4,
                cur_decay_value = 0\<rparr>, [[5]])
   \<and> map_sum id (\<lambda>e. (shadow_params e, optimization_step e))
        (ema_step \<lparr>shadow_params = [[1]], optimization_step = 0, decay = 9999 / 10000,
                   min_decay = 9999 / 10000, use_ema_warmup = True, inv_gamma = 1,
                   power = 3 / 4, cur_decay_value = 0\<rparr> [[5]]) = Inr ([[2501 / 2500]], 1)
   \<and> map_sum id (\<lambda>e. (shadow_params e, optimization_step e))
        (ema_step (load_state_dict (make_ema (default_args\<lparr>use_ema := True\<rparr>) [[1]]) saved_ema)
           [[5]]) = Inr ([[5]], 11)"
  by (simp add: prepare_def solo_worker_def default_args_def resume_def checkpoint_path_def
      checkpoint_500_def join_def strip_def is_space_def loop_init_def emit_def ret_def raise_def
      make_ema_def EMAModel_def saved_ema_def zip_assign_def ema_step_def get_decay_pinned
      load_state_dict_def Let_def)

subsection \<open>Checkpoint writes and telemetry\<close>

lemma checkpoint_branch_calls:
  "checkpoint_branch c a st =
     (SaveState (save_path a st) #
      (if is_main_process c
       then [TorchSave (join (save_path a st) ''other_state.pth'') (side_record a st)]
       else []) @
      [SafeBlobWrite (join (output_dir a) ''latest'') (save_path a st),
       LoggerInfo ''Saved state''],
      Inr ())"
  by (simp add: checkpoint_branch_def save_checkpoint_def emit_def ret_def)


lemma main_alone_complete:
  "is_main_process c \<Longrightarrow> \<not> exposes_incomplete saved (fst (checkpoint_branch c a st))"
  by (simp add: checkpoint_branch_calls)


lemma gnorm_unbound:
  "gradient_accumulation_steps a \<noteq> 0 \<Longrightarrow>
   log_branch c a st epoch = ([], Inl (NameError ''gnorm''))"
  by (simp add: log_branch_def build_logs_def resolve_global_def module_globals_def
      builtins_def raise_def Let_def)

text \<open>
  C9.  A sync step that takes the step counter from 99 to 100, with \<open>log_every = 100\<close> and
  all three telemetry sinks accepting every call: the logging branch is entered, line 294
  reads the name \<open>gnorm\<close>, which is bound nowhere, and the step ends with \<open>NameError\<close>
  before any sink is called.
\<close>

theorem logging_step_raises_NameError:
  "after_backward solo_worker default_args (at_step 99) (5 / 12) 0 =
     ([], Inl (NameError ''gnorm''))
   \<and> logger_info_fails solo_worker = None \<and> accelerator_log_fails solo_worker = None
   \<and> wandb_log_fails solo_worker = None"
proof -
  have g: "gradient_accumulation_steps default_args \<noteq> 0" by (simp add: default_args_def)
  show ?thesis
    by (simp add: after_backward_def Let_def gnorm_unbound [OF g] lift_def py_mod_def raise_def)
       (simp add: solo_worker_def default_args_def at_step_def)
qed

end
